theory Spec2Isabelle
  imports Main "HOL-Library.AList"
begin

section \<open>Sign-in route\<close>

subsection \<open>Values read from the submitted form\<close>

text \<open>
  The action reads \<open>request.formData()\<close> and hands it to the form library's \<open>parse\<close>.
  The library reads the intent from the form data (\<open>"submit"\<close> unless a button set
  another one) and folds the other entries into a payload object; a request is given
  here by that intent and that payload, so requests whose form data the library cannot
  fold (an intent entry that is a file, or two different ones) are outside the model.
  A field of the payload is absent, a string, or something that is not a string (a
  file, an array, a nested object). Strings are lists of code units, so \<open>length\<close> is what
  \<open>String.length\<close> counts.
\<close>

datatype jsval = JUndefined | JString string | JOther

datatype jsError = Error string

record formData =
  fd_intent :: string
  fd_payload :: "(string \<times> jsval) list"

record request =
  cookie :: "string option"
  formData :: formData

definition field :: "(string \<times> jsval) list \<Rightarrow> string \<Rightarrow> jsval" where
  "field p k = (case map_of p k of None \<Rightarrow> JUndefined | Some v \<Rightarrow> v)"

text \<open>
  Before the schema runs, \<open>parse\<close> looks at the intent. An intent of the form
  \<open>list/...\<close> is a list command: the library decodes the command and applies it to the
  payload, and it throws when the command is malformed or does not fit the payload.
  Decoding and applying are the library's own and are a parameter \<open>lc\<close> of the model:
  from the intent and the payload it gives the error thrown or the payload after the
  command. Every other intent leaves the payload as it is.
\<close>

definition isListIntent :: "string \<Rightarrow> bool" where
  "isListIntent i = (CHR ''/'' \<in> set i \<and> takeWhile (\<lambda>c. c \<noteq> CHR ''/'') i = ''list'')"

definition applyListCommand ::
  "(string \<Rightarrow> (string \<times> jsval) list \<Rightarrow> jsError + (string \<times> jsval) list) \<Rightarrow>
   string \<Rightarrow> (string \<times> jsval) list \<Rightarrow> jsError + (string \<times> jsval) list" where
  "applyListCommand lc i p = (if isListIntent i then lc i p else Inr p)"

subsection \<open>The schema\<close>

text \<open>
  A string schema of the validation library: the two type-level messages and the list
  of checks in the order they were chained. The email check is the library's own
  pattern; it is a parameter \<open>em\<close> of the model.
\<close>

datatype check = Min nat string | Max nat string | Email string

record stringSchema =
  invalid_type_error :: string
  required_error :: string
  checks :: "check list"

definition emailSchema :: stringSchema where
  "emailSchema =
     \<lparr> invalid_type_error = ''Email is not valid.'',
       required_error = ''Email is required.'',
       checks = [Min 1 ''Email is required.'',
                 Max 254 ''Email must be at most 254 characters long.'',
                 Email ''Email is not valid.''] \<rparr>"

definition passwordSchema :: stringSchema where
  "passwordSchema =
     \<lparr> invalid_type_error = ''Password is not valid.'',
       required_error = ''Password is required.'',
       checks = [Min 8 ''Password must be at least 8 characters long.'',
                 Max 128 ''Password must be at most 128 characters long.''] \<rparr>"

fun runCheck :: "(string \<Rightarrow> bool) \<Rightarrow> string \<Rightarrow> check \<Rightarrow> string list" where
  "runCheck em s (Min n msg) = (if length s < n then [msg] else [])"
| "runCheck em s (Max n msg) = (if length s > n then [msg] else [])"
| "runCheck em s (Email msg) = (if em s then [] else [msg])"

text \<open>
  Parsing one field: a missing value and a non-string are type errors; on a string every
  check runs and every failed check leaves its message, in order.
\<close>

definition parseString :: "(string \<Rightarrow> bool) \<Rightarrow> stringSchema \<Rightarrow> jsval \<Rightarrow> string list + string" where
  "parseString em sc v =
     (case v of
        JUndefined \<Rightarrow> Inl [required_error sc]
      | JOther \<Rightarrow> Inl [invalid_type_error sc]
      | JString s \<Rightarrow>
          (case concat (map (runCheck em s) (checks sc)) of
             [] \<Rightarrow> Inr s
           | m # ms \<Rightarrow> Inl (m # ms)))"

definition issuesOf :: "string \<Rightarrow> string list + string \<Rightarrow> (string \<times> string) list" where
  "issuesOf name r = (case r of Inl ms \<Rightarrow> map (Pair name) ms | Inr _ \<Rightarrow> [])"

text \<open>The form library keeps, for every field name, the first message reported for it.\<close>

definition addIssue :: "(string \<times> string) list \<Rightarrow> string \<times> string \<Rightarrow> (string \<times> string) list" where
  "addIssue acc i = (case map_of acc (fst i) of None \<Rightarrow> acc @ [i] | Some _ \<Rightarrow> acc)"

record credentials =
  email :: string
  password :: string

record submission =
  intent :: string
  payload :: "(string \<times> jsval) list"
  parsed_value :: "credentials option"
  error :: "(string \<times> string) list"

text \<open>
  The schema on a payload: both fields are parsed; the result is the pair of values, or
  the errors keyed by field name.
\<close>

definition resolveSchema ::
  "(string \<Rightarrow> bool) \<Rightarrow> (string \<times> jsval) list \<Rightarrow> credentials option \<times> (string \<times> string) list" where
  "resolveSchema em p =
     (let re = parseString em emailSchema (field p ''email'');
          rp = parseString em passwordSchema (field p ''password'')
      in case (re, rp) of
           (Inr e, Inr pw) \<Rightarrow> (Some \<lparr> email = e, password = pw \<rparr>, [])
         | _ \<Rightarrow> (None, foldl addIssue [] (issuesOf ''email'' re @ issuesOf ''password'' rp)))"

definition parse ::
  "(string \<Rightarrow> bool) \<Rightarrow>
   (string \<Rightarrow> (string \<times> jsval) list \<Rightarrow> jsError + (string \<times> jsval) list) \<Rightarrow>
   formData \<Rightarrow> jsError + submission" where
  "parse em lc fd =
     (case applyListCommand lc (fd_intent fd) (fd_payload fd) of
        Inl e \<Rightarrow> Inl e
      | Inr p \<Rightarrow>
          Inr \<lparr> intent = fd_intent fd, payload = p,
                parsed_value = fst (resolveSchema em p),
                error = snd (resolveSchema em p) \<rparr>)"

subsection \<open>Responses\<close>

datatype body = NoBody | JsonBody submission

record response =
  status :: nat
  headers :: "(string \<times> string) list"
  body :: body

record responseInit =
  init_status :: "nat option"
  init_headers :: "(string \<times> string) list"

text \<open>
  \<open>json\<close> and \<open>redirect\<close> are the web framework's response helpers. \<open>json\<close> serialises the
  data and adds a content type when the caller gave none; a response built without a
  status has status 200. \<open>redirect\<close> sets the \<open>Location\<close> header, and its status is the
  one the caller gave, 302 when the caller gave none.
\<close>

definition json :: "submission \<Rightarrow> responseInit \<Rightarrow> response" where
  "json d init =
     \<lparr> status = (case init_status init of None \<Rightarrow> 200 | Some s \<Rightarrow> s),
       headers = (case map_of (init_headers init) ''Content-Type'' of
                    None \<Rightarrow> init_headers init @ [(''Content-Type'', ''application/json; charset=utf-8'')]
                  | Some _ \<Rightarrow> init_headers init),
       body = JsonBody d \<rparr>"

definition redirect :: "string \<Rightarrow> responseInit \<Rightarrow> response" where
  "redirect url init =
     \<lparr> status = (case init_status init of None \<Rightarrow> 302 | Some s \<Rightarrow> s),
       headers = AList.update ''Location'' url (init_headers init),
       body = NoBody \<rparr>"

subsection \<open>Collaborators\<close>

text \<open>
  The user model, the payment service, the session service and the route table live
  outside this file; the action only calls them. They are the fields of an environment,
  next to the two parameters of \<open>parse\<close>, and every call the action makes to a
  collaborator is recorded, in order, in the trace it returns.
\<close>

record 'sub user =
  user_id :: string
  user_email :: string
  subscription :: "'sub option"
  stripeCustomerId :: "string option"

record ('sess, 'sub) env =
  isEmail :: "string \<Rightarrow> bool"
  listCommand :: "string \<Rightarrow> (string \<times> jsval) list \<Rightarrow> jsError + (string \<times> jsval) list"
  verifyLogin :: "string \<Rightarrow> string \<Rightarrow> 'sub user option"
  generateId :: string
  createStripeCheckoutSession :: "string \<Rightarrow> string \<Rightarrow> string \<Rightarrow> string option \<Rightarrow> string"
  createUserSession :: "request \<Rightarrow> string \<Rightarrow> 'sess"
  commitSession :: "'sess \<Rightarrow> string"
  signIn :: string
  appRoot :: string

datatype 'sess call =
    VerifyLogin string string
  | GenerateId
  | CreateStripeCheckoutSession string string string "string option"
  | CreateUserSession request string
  | CommitSession 'sess

fun isSideEffect :: "'sess call \<Rightarrow> bool" where
  "isSideEffect (CreateStripeCheckoutSession _ _ _ _) = True"
| "isSideEffect (CreateUserSession _ _) = True"
| "isSideEffect _ = False"

definition sideEffects :: "'sess call list \<Rightarrow> 'sess call list" where
  "sideEffects tr = filter isSideEffect tr"

subsection \<open>The action\<close>

definition invalidCredentials :: string where
  "invalidCredentials = ''You have entered an invalid email or password.''"

text \<open>
  The action has no handler around \<open>parse\<close>: when \<open>parse\<close> throws, the action throws, before
  it has called any collaborator.
\<close>

definition action ::
  "('sess, 'sub) env \<Rightarrow> request \<Rightarrow> (jsError + response) \<times> 'sess call list" where
  "action env req =
     (case parse (isEmail env) (listCommand env) (formData req) of
        Inl e \<Rightarrow> (Inl e, [])
      | Inr submission \<Rightarrow>
     (case parsed_value submission of
        None \<Rightarrow> (Inr (json submission \<lparr> init_status = Some 400, init_headers = [] \<rparr>), [])
      | Some v \<Rightarrow>
          if intent submission \<noteq> ''submit''
          then (Inr (json submission \<lparr> init_status = Some 400, init_headers = [] \<rparr>), [])
          else
            (case verifyLogin env (email v) (password v) of
               None \<Rightarrow>
                 (Inr (json (submission \<lparr> error := AList.update ''form'' invalidCredentials (error submission) \<rparr>)
                    \<lparr> init_status = Some 400, init_headers = [] \<rparr>),
                  [VerifyLogin (email v) (password v)])
             | Some u \<Rightarrow>
                 (case subscription u of
                    None \<Rightarrow>
                      (let cancelUrl = signIn env @ ''?canceled_id='' @ generateId env;
                           sessionUrl = createStripeCheckoutSession env
                             (user_id u) (user_email u) cancelUrl (stripeCustomerId u)
                       in (Inr (redirect sessionUrl \<lparr> init_status = Some 303, init_headers = [] \<rparr>),
                           [VerifyLogin (email v) (password v), GenerateId,
                            CreateStripeCheckoutSession
                              (user_id u) (user_email u) cancelUrl (stripeCustomerId u)]))
                  | Some _ \<Rightarrow>
                      (let userSession = createUserSession env req (user_id u)
                       in (Inr (redirect (appRoot env)
                             \<lparr> init_status = None,
                               init_headers = [(''Set-Cookie'', commitSession env userSession)] \<rparr>),
                           [VerifyLogin (email v) (password v),
                            CreateUserSession req (user_id u),
                            CommitSession userSession]))))))"

text \<open>
  Sample collaborators and requests, used to run the action on concrete inputs. The
  sample list command throws on a command that does not begin a JSON object.
\<close>

definition sampleEnv :: "(string, unit) env" where
  "sampleEnv =
     \<lparr> isEmail = (\<lambda>s. CHR ''@'' \<in> set s),
       listCommand = (\<lambda>i p.
          if take 1 (drop 5 i) = ''{'' then Inr p
          else Inl (Error (''Failed parsing intent: '' @ i))),
       verifyLogin = (\<lambda>e p.
          if e = ''ann@gym.io'' \<and> p = ''correct-horse'' then
            Some \<lparr> user_id = ''u1'', user_email = ''ann@gym.io'',
                   subscription = Some (), stripeCustomerId = Some ''cus_1'' \<rparr>
          else if e = ''bob@gym.io'' \<and> p = ''battery-staple'' then
            Some \<lparr> user_id = ''u2'', user_email = ''bob@gym.io'',
                   subscription = None, stripeCustomerId = None \<rparr>
          else None),
       generateId = ''id42'',
       createStripeCheckoutSession = (\<lambda>uid mail cancel cus. ''https://checkout.example/'' @ uid),
       createUserSession = (\<lambda>r uid. ''session:'' @ uid),
       commitSession = (\<lambda>s. ''__session='' @ s),
       signIn = ''/sign-in'',
       appRoot = ''/app'' \<rparr>"

definition signInRequest :: "string \<Rightarrow> string \<Rightarrow> string \<Rightarrow> request" where
  "signInRequest i e p =
     \<lparr> cookie = None,
       formData = \<lparr> fd_intent = i,
                    fd_payload = [(''email'', JString e), (''password'', JString p)] \<rparr> \<rparr>"

section \<open>Root error boundary\<close>

text \<open>
  What \<open>useRouteError\<close> returns is either a route error response, which carries an HTTP
  status, or any other thrown value. The boundary writes to the console, and then either
  returns an element or throws.
\<close>

datatype 'e routeError = RouteErrorResponse nat | Thrown 'e

record errorPage =
  statusCode :: nat
  title :: string
  subtitle :: string
  backLinkTo :: string
  backLinkText :: string

datatype element = ErrorDoc errorPage

datatype 'e consoleLine = ConsoleError string "'e routeError"

definition digit :: "nat \<Rightarrow> char" where
  "digit d = ''0123456789'' ! d"

function string_of_nat :: "nat \<Rightarrow> string" where
  "string_of_nat n =
     (if n < 10 then [digit n] else string_of_nat (n div 10) @ [digit (n mod 10)])"
  by pat_completeness auto
termination
  by (relation "measure id") auto

declare string_of_nat.simps [simp del]

definition ErrorBoundary ::
  "'e routeError \<Rightarrow> string \<Rightarrow> (jsError + element) \<times> 'e consoleLine list" where
  "ErrorBoundary err pathname =
     (case err of
        RouteErrorResponse st \<Rightarrow>
          (if st = 404 then
             Inr (ErrorDoc \<lparr> statusCode = st, title = ''Page not found'',
                    subtitle = [CHR 0x22] @ pathname @ [CHR 0x22] @ '' is not a page. So sorry.'',
                    backLinkTo = ''/'', backLinkText = ''Back to home'' \<rparr>)
           else if st \<noteq> 500 then
             Inr (ErrorDoc \<lparr> statusCode = st, title = ''Oh no, something did not go well.'',
                    subtitle = [CHR 0x22] @ pathname @ [CHR 0x22] @ '' is currently not working. So sorry.'',
                    backLinkTo = ''/'', backLinkText = ''Back to home'' \<rparr>)
           else Inl (Error (''Unhandled error: '' @ string_of_nat st)),
           [ConsoleError ''Caught route error'' err])
      | Thrown _ \<Rightarrow>
          (Inr (ErrorDoc \<lparr> statusCode = 500, title = ''Oh no, something did not go well.'',
                  subtitle = [CHR 0x22] @ pathname @ [CHR 0x22] @ '' is currently not working. So sorry.'',
                  backLinkTo = ''/'', backLinkText = ''Back to home'' \<rparr>),
           [ConsoleError ''Uncaught error'' err]))"

section \<open>Exercise fieldset of the mesocycle designer\<close>

text \<open>
  The fieldset shows one row per set of the exercise and two list controls of the form
  library: a button that removes this exercise from the list of exercises, and, under a
  condition on the number of rows, a button that appends a set with a default value.
  Pressing an append button adds the default value at the end of the list.
\<close>

record setValue =
  rir :: string
  repRange :: string
  weight :: string

datatype listCommand = ListAppend string setValue | ListRemove string nat

record exerciseFieldsetProps =
  exercisesName :: string
  index :: nat
  setsName :: string
  setsList :: "setValue list"

record exerciseFieldsetView =
  deleteExercise :: listCommand
  setRows :: "(nat \<times> setValue) list"
  addSet :: "listCommand option"

definition ExerciseFieldset :: "exerciseFieldsetProps \<Rightarrow> exerciseFieldsetView" where
  "ExerciseFieldset props =
     \<lparr> deleteExercise = ListRemove (exercisesName props) (index props),
       setRows = map (\<lambda>(i, s). (i + 1, s)) (enumerate 0 (setsList props)),
       addSet = (if length (setsList props) < 10
                 then Some (ListAppend (setsName props)
                              \<lparr> rir = ''0'', repRange = ''5-8'', weight = [] \<rparr>)
                 else None) \<rparr>"

fun applyToSets :: "listCommand \<Rightarrow> setValue list \<Rightarrow> setValue list" where
  "applyToSets (ListAppend _ v) xs = xs @ [v]"
| "applyToSets (ListRemove _ i) xs = take i xs @ drop (Suc i) xs"

text \<open>A press on "Add set": possible only when the button is on the page.\<close>

definition pressAddSet :: "exerciseFieldsetProps \<Rightarrow> exerciseFieldsetProps option" where
  "pressAddSet props =
     (case addSet (ExerciseFieldset props) of
        None \<Rightarrow> None
      | Some cmd \<Rightarrow> Some (props \<lparr> setsList := applyToSets cmd (setsList props) \<rparr>))"

text \<open>The user tries the button \<open>n\<close> times; a try where the button is missing changes nothing.\<close>

fun tryAddSet :: "nat \<Rightarrow> exerciseFieldsetProps \<Rightarrow> exerciseFieldsetProps" where
  "tryAddSet 0 props = props"
| "tryAddSet (Suc n) props =
     tryAddSet n (case pressAddSet props of None \<Rightarrow> props | Some props' \<Rightarrow> props')"

section \<open>Facts about the schema and the action\<close>




lemma resolve_error_Some: "fst (resolveSchema em p) = Some v \<Longrightarrow> snd (resolveSchema em p) = []"
  by (auto simp: resolveSchema_def Let_def split: sum.splits)


lemma not_list_submit: "\<not> isListIntent ''submit''"
  by (simp add: isListIntent_def)



lemma parse_Inr:
  "parse em lc fd = Inr sub \<longleftrightarrow>
     (\<exists>p. applyListCommand lc (fd_intent fd) (fd_payload fd) = Inr p \<and>
          sub = \<lparr> intent = fd_intent fd, payload = p,
                  parsed_value = fst (resolveSchema em p),
                  error = snd (resolveSchema em p) \<rparr>)"
  by (auto simp: parse_def split: sum.splits)

lemma parse_Inr_fields:
  assumes "parse em lc fd = Inr sub"
  shows "intent sub = fd_intent fd"
    and "parsed_value sub = fst (resolveSchema em (payload sub))"
    and "error sub = snd (resolveSchema em (payload sub))"
    and "\<not> isListIntent (fd_intent fd) \<Longrightarrow> payload sub = fd_payload fd"
  using assms by (auto simp: parse_Inr applyListCommand_def)

lemma parse_error_Some:
  "parse em lc fd = Inr sub \<Longrightarrow> parsed_value sub = Some v \<Longrightarrow> error sub = []"
  by (auto simp: parse_Inr resolve_error_Some)

lemma action_cases:
  "action env req =
     (case parse (isEmail env) (listCommand env) (formData req) of
        Inl e \<Rightarrow> (Inl e, [])
      | Inr sub \<Rightarrow>
     (case parsed_value sub of
        None \<Rightarrow> (Inr (json sub \<lparr> init_status = Some 400, init_headers = [] \<rparr>), [])
      | Some v \<Rightarrow>
          if intent sub \<noteq> ''submit''
          then (Inr (json sub \<lparr> init_status = Some 400, init_headers = [] \<rparr>), [])
          else
            (case verifyLogin env (email v) (password v) of
               None \<Rightarrow>
                 (Inr (json (sub \<lparr> error := [(''form'', invalidCredentials)] \<rparr>)
                    \<lparr> init_status = Some 400, init_headers = [] \<rparr>),
                  [VerifyLogin (email v) (password v)])
             | Some u \<Rightarrow>
                 (case subscription u of
                    None \<Rightarrow>
                      (Inr (redirect (createStripeCheckoutSession env (user_id u) (user_email u)
                                  (signIn env @ ''?canceled_id='' @ generateId env) (stripeCustomerId u))
                         \<lparr> init_status = Some 303, init_headers = [] \<rparr>),
                       [VerifyLogin (email v) (password v), GenerateId,
                        CreateStripeCheckoutSession (user_id u) (user_email u)
                          (signIn env @ ''?canceled_id='' @ generateId env) (stripeCustomerId u)])
                  | Some _ \<Rightarrow>
                      (Inr (redirect (appRoot env)
                         \<lparr> init_status = None,
                           init_headers = [(''Set-Cookie'',
                              commitSession env (createUserSession env req (user_id u)))] \<rparr>),
                       [VerifyLogin (email v) (password v),
                        CreateUserSession req (user_id u),
                        CommitSession (createUserSession env req (user_id u))])))))"
  by (auto simp: action_def Let_def parse_error_Some split: option.splits sum.splits)












lemma sampleEnv_sel:
  "isEmail sampleEnv = (\<lambda>s. CHR ''@'' \<in> set s)"
  "listCommand sampleEnv i p =
     (if take 1 (drop 5 i) = ''{'' then Inr p else Inl (Error (''Failed parsing intent: '' @ i)))"
  "generateId sampleEnv = ''id42''"
  "createStripeCheckoutSession sampleEnv uid mail cancel cus = ''https://checkout.example/'' @ uid"
  "createUserSession sampleEnv r uid = ''session:'' @ uid"
  "commitSession sampleEnv s = ''__session='' @ s"
  "signIn sampleEnv = ''/sign-in''"
  "appRoot sampleEnv = ''/app''"
  by (simp_all add: sampleEnv_def)

lemma sampleEnv_verifyLogin:
  "verifyLogin sampleEnv ''ann@gym.io'' ''correct-horse'' =
     Some \<lparr> user_id = ''u1'', user_email = ''ann@gym.io'',
            subscription = Some (), stripeCustomerId = Some ''cus_1'' \<rparr>"
  "verifyLogin sampleEnv ''bob@gym.io'' ''battery-staple'' =
     Some \<lparr> user_id = ''u2'', user_email = ''bob@gym.io'',
            subscription = None, stripeCustomerId = None \<rparr>"
  "verifyLogin sampleEnv ''bob@gym.io'' ''battery-stapl'' = None"
  by (simp_all add: sampleEnv_def)

lemmas sample_defs = sampleEnv_sel signInRequest_def parse_def applyListCommand_def
  isListIntent_def resolveSchema_def parseString_def field_def
  emailSchema_def passwordSchema_def issuesOf_def addIssue_def Let_def

lemma sample_parse_valid:
  "parse (isEmail sampleEnv) (listCommand sampleEnv) (formData (signInRequest ''submit'' ''ann@gym.io'' ''correct-horse'')) =
     Inr \<lparr> intent = ''submit'',
           payload = [(''email'', JString ''ann@gym.io''), (''password'', JString ''correct-horse'')],
           parsed_value = Some \<lparr> email = ''ann@gym.io'', password = ''correct-horse'' \<rparr>,
           error = [] \<rparr>"
  "parse (isEmail sampleEnv) (listCommand sampleEnv) (formData (signInRequest ''submit'' ''bob@gym.io'' ''battery-staple'')) =
     Inr \<lparr> intent = ''submit'',
           payload = [(''email'', JString ''bob@gym.io''), (''password'', JString ''battery-staple'')],
           parsed_value = Some \<lparr> email = ''bob@gym.io'', password = ''battery-staple'' \<rparr>,
           error = [] \<rparr>"
  "parse (isEmail sampleEnv) (listCommand sampleEnv) (formData (signInRequest ''submit'' ''bob@gym.io'' ''battery-stapl'')) =
     Inr \<lparr> intent = ''submit'',
           payload = [(''email'', JString ''bob@gym.io''), (''password'', JString ''battery-stapl'')],
           parsed_value = Some \<lparr> email = ''bob@gym.io'', password = ''battery-stapl'' \<rparr>,
           error = [] \<rparr>"
  "parse (isEmail sampleEnv) (listCommand sampleEnv) (formData (signInRequest ''validate/email'' ''ann@gym.io'' ''correct-horse'')) =
     Inr \<lparr> intent = ''validate/email'',
           payload = [(''email'', JString ''ann@gym.io''), (''password'', JString ''correct-horse'')],
           parsed_value = Some \<lparr> email = ''ann@gym.io'', password = ''correct-horse'' \<rparr>,
           error = [] \<rparr>"
  by (simp_all add: sample_defs)

lemma sample_parse_invalid:
  "parse (isEmail sampleEnv) (listCommand sampleEnv) (formData (signInRequest ''submit'' [] ''short'')) =
     Inr \<lparr> intent = ''submit'',
           payload = [(''email'', JString []), (''password'', JString ''short'')],
           parsed_value = None,
           error = [(''email'', ''Email is required.''),
                    (''password'', ''Password must be at least 8 characters long.'')] \<rparr>"
  by (simp add: sample_defs)

lemma sample_parse_throws:
  "parse (isEmail sampleEnv) (listCommand sampleEnv) (formData (signInRequest ''list/x'' e p)) =
     Inl (Error ''Failed parsing intent: list/x'')"
  by (simp add: sample_defs)

lemma sample_status:
  "\<exists>r. fst (action sampleEnv (signInRequest ''submit'' ''ann@gym.io'' ''correct-horse'')) = Inr r \<and> status r = 302"
  "\<exists>r. fst (action sampleEnv (signInRequest ''submit'' ''bob@gym.io'' ''battery-staple'')) = Inr r \<and> status r = 303"
  "\<exists>r. fst (action sampleEnv (signInRequest ''submit'' ''bob@gym.io'' ''battery-stapl'')) = Inr r \<and> status r = 400"
  "\<exists>r. fst (action sampleEnv (signInRequest ''submit'' [] ''short'')) = Inr r \<and> status r = 400"
  "fst (action sampleEnv (signInRequest ''list/x'' ''ann@gym.io'' ''short'')) =
     Inl (Error ''Failed parsing intent: list/x'')"
  by (simp_all only: action_def sample_parse_valid sample_parse_invalid sample_parse_throws)
    (simp_all add: redirect_def json_def sampleEnv_verifyLogin sampleEnv_sel Let_def)

section \<open>Facts about the error boundary and the set list\<close>

lemma string_of_nat_500: "string_of_nat 500 = ''500''"
  by (simp add: string_of_nat.simps [of 500] string_of_nat.simps [of 50] string_of_nat.simps [of 5] digit_def)

lemma length_tryAddSet:
  "length (setsList (tryAddSet n props)) =
     max (length (setsList props)) (min 10 (length (setsList props) + n))"
proof (induction n arbitrary: props)
  case 0
  show ?case by simp
next
  case (Suc n)
  show ?case
  proof (cases "length (setsList props) < 10")
    case True
    then have "pressAddSet props =
        Some (props \<lparr> setsList := setsList props @ [\<lparr> rir = ''0'', repRange = ''5-8'', weight = [] \<rparr>] \<rparr>)"
      by (simp add: pressAddSet_def ExerciseFieldset_def)
    with True show ?thesis by (simp add: Suc.IH)
  next
    case False
    then have "pressAddSet props = None"
      by (simp add: pressAddSet_def ExerciseFieldset_def)
    with False show ?thesis by (simp add: Suc.IH)
  qed
qed

section \<open>Sign-in action: the claims\<close>

text \<open>
  Claim C1. A submission (intent \<open>submit\<close>) whose email and password pass the schema and
  whose credentials verify to a user that has a subscription: the action calls
  \<open>createUserSession\<close> for that user and returns a redirect, status 302, to the app
  root, whose \<open>Set-Cookie\<close> header is the committed session.
\<close>

theorem signin_subscribed_session_and_app_root_redirect:
  assumes "parse (isEmail env) (listCommand env) (formData req) = Inr sub"
    and "parsed_value sub = Some v"
    and "intent sub = ''submit''"
    and "verifyLogin env (email v) (password v) = Some u"
    and "subscription u = Some s"
  shows "action env req =
           (Inr \<lparr> status = 302,
                  headers = [(''Set-Cookie'', commitSession env (createUserSession env req (user_id u))),
                             (''Location'', appRoot env)],
                  body = NoBody \<rparr>,
            [VerifyLogin (email v) (password v),
             CreateUserSession req (user_id u),
             CommitSession (createUserSession env req (user_id u))])"
  using assms by (simp add: action_cases redirect_def)

text \<open>
  Claim C1 at a concrete submission: Ann has a subscription.
\<close>

theorem signin_subscribed_session_and_app_root_redirect_witness:
  "action sampleEnv (signInRequest ''submit'' ''ann@gym.io'' ''correct-horse'') =
     (Inr \<lparr> status = 302,
            headers = [(''Set-Cookie'', ''__session=session:u1''), (''Location'', ''/app'')],
            body = NoBody \<rparr>,
      [VerifyLogin ''ann@gym.io'' ''correct-horse'',
       CreateUserSession (signInRequest ''submit'' ''ann@gym.io'' ''correct-horse'') ''u1'',
       CommitSession ''session:u1''])"
proof -
  let ?req = "signInRequest ''submit'' ''ann@gym.io'' ''correct-horse''"
  let ?v = "\<lparr> email = ''ann@gym.io'', password = ''correct-horse'' \<rparr>"
  let ?u = "\<lparr> user_id = ''u1'', user_email = ''ann@gym.io'',
             subscription = Some (), stripeCustomerId = Some ''cus_1'' \<rparr>"
  let ?sub = "\<lparr> intent = ''submit'',
           payload = [(''email'', JString ''ann@gym.io''), (''password'', JString ''correct-horse'')],
           parsed_value = Some ?v, error = [] \<rparr>"
  have h1: "parse (isEmail sampleEnv) (listCommand sampleEnv) (formData ?req) = Inr ?sub"
    by (rule sample_parse_valid)
  have h2: "parsed_value ?sub = Some ?v" by simp
  have h3: "intent ?sub = ''submit''" by simp
  have h4: "verifyLogin sampleEnv (email ?v) (password ?v) = Some ?u"
    by (simp add: sampleEnv_verifyLogin)
  have h5: "subscription ?u = Some ()" by simp
  from signin_subscribed_session_and_app_root_redirect [OF h1 h2 h3 h4 h5] show ?thesis
    by (simp add: sampleEnv_sel)
qed

text \<open>
  Claim C2. A submission (intent \<open>submit\<close>) whose credentials verify to a user without a
  subscription: the action calls \<open>createStripeCheckoutSession\<close> and returns a redirect
  with status 303 to the URL that call returned; no user session is created.
\<close>

theorem signin_unsubscribed_checkout_redirect:
  assumes "parse (isEmail env) (listCommand env) (formData req) = Inr sub"
    and "parsed_value sub = Some v"
    and "intent sub = ''submit''"
    and "verifyLogin env (email v) (password v) = Some u"
    and "subscription u = None"
    and "url = createStripeCheckoutSession env (user_id u) (user_email u)
                 (signIn env @ ''?canceled_id='' @ generateId env) (stripeCustomerId u)"
  shows "snd (action env req) =
           [VerifyLogin (email v) (password v), GenerateId,
            CreateStripeCheckoutSession (user_id u) (user_email u)
              (signIn env @ ''?canceled_id='' @ generateId env) (stripeCustomerId u)] \<and>
         fst (action env req) =
           Inr \<lparr> status = 303, headers = [(''Location'', url)], body = NoBody \<rparr> \<and>
         (\<forall>r uid. CreateUserSession r uid \<notin> set (snd (action env req)))"
  using assms by (simp add: action_cases redirect_def)

text \<open>
  Claim C2 at a concrete submission: Bob has no subscription.
\<close>

theorem signin_unsubscribed_checkout_redirect_witness:
  "action sampleEnv (signInRequest ''submit'' ''bob@gym.io'' ''battery-staple'') =
     (Inr \<lparr> status = 303, headers = [(''Location'', ''https://checkout.example/u2'')],
            body = NoBody \<rparr>,
      [VerifyLogin ''bob@gym.io'' ''battery-staple'', GenerateId,
       CreateStripeCheckoutSession ''u2'' ''bob@gym.io'' ''/sign-in?canceled_id=id42'' None])"
proof -
  let ?req = "signInRequest ''submit'' ''bob@gym.io'' ''battery-staple''"
  let ?v = "\<lparr> email = ''bob@gym.io'', password = ''battery-staple'' \<rparr>"
  let ?u = "\<lparr> user_id = ''u2'', user_email = ''bob@gym.io'',
             subscription = None :: unit option, stripeCustomerId = None \<rparr>"
  let ?sub = "\<lparr> intent = ''submit'',
           payload = [(''email'', JString ''bob@gym.io''), (''password'', JString ''battery-staple'')],
           parsed_value = Some ?v, error = [] \<rparr>"
  have h1: "parse (isEmail sampleEnv) (listCommand sampleEnv) (formData ?req) = Inr ?sub"
    by (rule sample_parse_valid)
  have h2: "parsed_value ?sub = Some ?v" by simp
  have h3: "intent ?sub = ''submit''" by simp
  have h4: "verifyLogin sampleEnv (email ?v) (password ?v) = Some ?u"
    by (simp add: sampleEnv_verifyLogin)
  have h5: "subscription ?u = None" by simp
  from signin_unsubscribed_checkout_redirect [OF h1 h2 h3 h4 h5 refl] show ?thesis
    by (simp add: sampleEnv_sel prod_eq_iff)
qed

text \<open>
  Claim C3 as stated (every redirect of the action has status 303) fails: Ann's sign-in
  is redirected to the app root, and the status of that response is 302.
\<close>

theorem signin_app_root_redirect_not_303:
  "action sampleEnv (signInRequest ''submit'' ''ann@gym.io'' ''correct-horse'') =
     (Inr \<lparr> status = 302,
            headers = [(''Set-Cookie'', ''__session=session:u1''), (''Location'', ''/app'')],
            body = NoBody \<rparr>,
      [VerifyLogin ''ann@gym.io'' ''correct-horse'',
       CreateUserSession (signInRequest ''submit'' ''ann@gym.io'' ''correct-horse'') ''u1'',
       CommitSession ''session:u1'']) \<and>
   appRoot sampleEnv = ''/app''"
  by (simp only: action_def sample_parse_valid)
    (simp add: redirect_def sampleEnv_verifyLogin sampleEnv_sel Let_def)

text \<open>
  Claim C3, amended. The action answers with a redirect exactly when the submission
  passes the guard and the credentials verify. The redirect to the external checkout
  has status 303. The redirect to the app root is built without a status, so it has the
  status the framework gives a redirect by default, 302.
\<close>

theorem signin_redirect_statuses:
  "((\<exists>r. fst (action env req) = Inr r \<and> map_of (headers r) ''Location'' \<noteq> None) \<longleftrightarrow>
      (\<exists>sub v u. parse (isEmail env) (listCommand env) (formData req) = Inr sub \<and>
             parsed_value sub = Some v \<and> intent sub = ''submit'' \<and>
             verifyLogin env (email v) (password v) = Some u)) \<and>
   (\<forall>sub v u. parse (isEmail env) (listCommand env) (formData req) = Inr sub \<and>
          parsed_value sub = Some v \<and> intent sub = ''submit'' \<and>
          verifyLogin env (email v) (password v) = Some u \<longrightarrow>
          (\<exists>r. fst (action env req) = Inr r \<and>
             (subscription u = None \<longrightarrow>
                status r = 303 \<and>
                map_of (headers r) ''Location'' =
                  Some (createStripeCheckoutSession env (user_id u) (user_email u)
                          (signIn env @ ''?canceled_id='' @ generateId env) (stripeCustomerId u))) \<and>
             (subscription u \<noteq> None \<longrightarrow>
                status r = 302 \<and>
                map_of (headers r) ''Location'' = Some (appRoot env))))"
  by (auto simp: action_cases redirect_def json_def Let_def split: option.splits sum.splits)

text \<open>
  Claim C3, amended, at Ann's and Bob's submissions.
\<close>

theorem signin_redirect_statuses_witness:
  "(\<exists>r. fst (action sampleEnv (signInRequest ''submit'' ''ann@gym.io'' ''correct-horse'')) = Inr r \<and>
        status r = 302 \<and> map_of (headers r) ''Location'' = Some ''/app'') \<and>
   (\<exists>r. fst (action sampleEnv (signInRequest ''submit'' ''bob@gym.io'' ''battery-staple'')) = Inr r \<and>
        status r = 303 \<and> map_of (headers r) ''Location'' = Some ''https://checkout.example/u2'')"
proof -
  let ?a = "signInRequest ''submit'' ''ann@gym.io'' ''correct-horse''"
  let ?b = "signInRequest ''submit'' ''bob@gym.io'' ''battery-staple''"
  let ?va = "\<lparr> email = ''ann@gym.io'', password = ''correct-horse'' \<rparr>"
  let ?vb = "\<lparr> email = ''bob@gym.io'', password = ''battery-staple'' \<rparr>"
  let ?sa = "\<lparr> intent = ''submit'',
           payload = [(''email'', JString ''ann@gym.io''), (''password'', JString ''correct-horse'')],
           parsed_value = Some ?va, error = [] \<rparr>"
  let ?sb = "\<lparr> intent = ''submit'',
           payload = [(''email'', JString ''bob@gym.io''), (''password'', JString ''battery-staple'')],
           parsed_value = Some ?vb, error = [] \<rparr>"
  let ?ua = "\<lparr> user_id = ''u1'', user_email = ''ann@gym.io'',
              subscription = Some (), stripeCustomerId = Some ''cus_1'' \<rparr>"
  let ?ub = "\<lparr> user_id = ''u2'', user_email = ''bob@gym.io'',
              subscription = None :: unit option, stripeCustomerId = None \<rparr>"
  have a: "parse (isEmail sampleEnv) (listCommand sampleEnv) (formData ?a) = Inr ?sa \<and>
           parsed_value ?sa = Some ?va \<and> intent ?sa = ''submit'' \<and>
           verifyLogin sampleEnv (email ?va) (password ?va) = Some ?ua"
    by (simp add: sample_parse_valid sampleEnv_verifyLogin)
  have b: "parse (isEmail sampleEnv) (listCommand sampleEnv) (formData ?b) = Inr ?sb \<and>
           parsed_value ?sb = Some ?vb \<and> intent ?sb = ''submit'' \<and>
           verifyLogin sampleEnv (email ?vb) (password ?vb) = Some ?ub"
    by (simp add: sample_parse_valid sampleEnv_verifyLogin)
  from signin_redirect_statuses [of sampleEnv ?a, THEN conjunct2, rule_format, OF a]
  have 1: "\<exists>r. fst (action sampleEnv ?a) = Inr r \<and>
        status r = 302 \<and> map_of (headers r) ''Location'' = Some ''/app''"
    by (simp add: sampleEnv_sel)
  from signin_redirect_statuses [of sampleEnv ?b, THEN conjunct2, rule_format, OF b]
  have 2: "\<exists>r. fst (action sampleEnv ?b) = Inr r \<and>
        status r = 303 \<and> map_of (headers r) ''Location'' = Some ''https://checkout.example/u2''"
    by (simp add: sampleEnv_sel)
  from 1 2 show ?thesis ..
qed

text \<open>
  Claim C4. A submission (intent \<open>submit\<close>) that passes the schema but whose credentials
  do not verify: status 400, and the submission comes back with the one form-level
  message as its only error.
\<close>

theorem signin_unverified_credentials_400:
  assumes "parse (isEmail env) (listCommand env) (formData req) = Inr sub"
    and "parsed_value sub = Some v"
    and "intent sub = ''submit''"
    and "verifyLogin env (email v) (password v) = None"
  shows "action env req =
           (Inr \<lparr> status = 400,
                  headers = [(''Content-Type'', ''application/json; charset=utf-8'')],
                  body = JsonBody
                    \<lparr> intent = ''submit'', payload = fd_payload (formData req),
                      parsed_value = Some v,
                      error = [(''form'', ''You have entered an invalid email or password.'')] \<rparr> \<rparr>,
            [VerifyLogin (email v) (password v)])"
proof -
  from assms(1,3) have i: "fd_intent (formData req) = ''submit''"
    by (simp add: parse_Inr_fields(1))
  then have "\<not> isListIntent (fd_intent (formData req))"
    by (simp add: not_list_submit)
  from parse_Inr_fields(4) [OF assms(1) this]
  have "payload sub = fd_payload (formData req)" .
  with assms(2,3) parse_error_Some [OF assms(1,2)]
  have "sub = \<lparr> intent = ''submit'', payload = fd_payload (formData req),
            parsed_value = Some v, error = [] \<rparr>"
    by (cases sub) simp
  then show ?thesis
    using assms(1,4) by (simp add: action_cases json_def invalidCredentials_def)
qed

text \<open>
  Claim C4 at a concrete submission: Bob with a wrong password.
\<close>

theorem signin_unverified_credentials_400_witness:
  "action sampleEnv (signInRequest ''submit'' ''bob@gym.io'' ''battery-stapl'') =
     (Inr \<lparr> status = 400,
            headers = [(''Content-Type'', ''application/json; charset=utf-8'')],
            body = JsonBody
              \<lparr> intent = ''submit'',
                payload = [(''email'', JString ''bob@gym.io''), (''password'', JString ''battery-stapl'')],
                parsed_value = Some \<lparr> email = ''bob@gym.io'', password = ''battery-stapl'' \<rparr>,
                error = [(''form'', ''You have entered an invalid email or password.'')] \<rparr> \<rparr>,
      [VerifyLogin ''bob@gym.io'' ''battery-stapl''])"
proof -
  let ?req = "signInRequest ''submit'' ''bob@gym.io'' ''battery-stapl''"
  let ?v = "\<lparr> email = ''bob@gym.io'', password = ''battery-stapl'' \<rparr>"
  let ?sub = "\<lparr> intent = ''submit'',
           payload = [(''email'', JString ''bob@gym.io''), (''password'', JString ''battery-stapl'')],
           parsed_value = Some ?v, error = [] \<rparr>"
  have h1: "parse (isEmail sampleEnv) (listCommand sampleEnv) (formData ?req) = Inr ?sub"
    by (rule sample_parse_valid)
  have h2: "parsed_value ?sub = Some ?v" by simp
  have h3: "intent ?sub = ''submit''" by simp
  have h4: "verifyLogin sampleEnv (email ?v) (password ?v) = None"
    by (simp add: sampleEnv_verifyLogin)
  have p: "fd_payload (formData ?req) =
             [(''email'', JString ''bob@gym.io''), (''password'', JString ''battery-stapl'')]"
    by (simp add: signInRequest_def)
  from signin_unverified_credentials_400 [OF h1 h2 h3 h4] show ?thesis
    unfolding p by simp
qed




text \<open>
  Claim C6. The side effects are the calls that create a checkout session or a user
  session. Every run of the action makes at most one of them. A run in which \<open>parse\<close>
  throws makes no call at all. A run that ends in status 400 (the schema or intent guard
  failed, or the credentials did not verify) makes none of the two. Every other run
  makes exactly one.
\<close>

theorem signin_one_side_effect:
  "length (sideEffects (snd (action env req))) \<le> 1 \<and>
   (\<forall>e. fst (action env req) = Inl e \<longrightarrow>
        parse (isEmail env) (listCommand env) (formData req) = Inl e \<and>
        snd (action env req) = []) \<and>
   (\<forall>r. fst (action env req) = Inr r \<longrightarrow>
        (status r = 400 \<longleftrightarrow>
           (\<exists>sub. parse (isEmail env) (listCommand env) (formData req) = Inr sub \<and>
              (parsed_value sub = None \<or> intent sub \<noteq> ''submit'' \<or>
               (\<exists>v. parsed_value sub = Some v \<and>
                    verifyLogin env (email v) (password v) = None)))) \<and>
        (status r = 400 \<longrightarrow> sideEffects (snd (action env req)) = []) \<and>
        (status r \<noteq> 400 \<longrightarrow>
           (\<exists>uid mail cancel cus.
               sideEffects (snd (action env req)) = [CreateStripeCheckoutSession uid mail cancel cus]) \<or>
           (\<exists>uid. sideEffects (snd (action env req)) = [CreateUserSession req uid])))"
  by (auto simp: action_cases json_def redirect_def sideEffects_def Let_def
      split: option.splits sum.splits)

text \<open>
  Claim C6 at five submissions: the two successful ones, the two rejected ones, and one
  on which \<open>parse\<close> throws.
\<close>

theorem signin_one_side_effect_witness:
  "length (sideEffects (snd (action sampleEnv
       (signInRequest ''submit'' ''ann@gym.io'' ''correct-horse'')))) = 1 \<and>
   length (sideEffects (snd (action sampleEnv
       (signInRequest ''submit'' ''bob@gym.io'' ''battery-staple'')))) = 1 \<and>
   sideEffects (snd (action sampleEnv
       (signInRequest ''submit'' ''bob@gym.io'' ''battery-stapl''))) = [] \<and>
   sideEffects (snd (action sampleEnv (signInRequest ''submit'' [] ''short''))) = [] \<and>
   snd (action sampleEnv (signInRequest ''list/x'' ''ann@gym.io'' ''short'')) = []"
proof -
  let ?a = "signInRequest ''submit'' ''ann@gym.io'' ''correct-horse''"
  let ?b = "signInRequest ''submit'' ''bob@gym.io'' ''battery-staple''"
  let ?c = "signInRequest ''submit'' ''bob@gym.io'' ''battery-stapl''"
  let ?d = "signInRequest ''submit'' [] ''short''"
  let ?e = "signInRequest ''list/x'' ''ann@gym.io'' ''short''"
  from sample_status(1) obtain ra where ra: "fst (action sampleEnv ?a) = Inr ra" "status ra \<noteq> 400"
    by auto
  from sample_status(2) obtain rb where rb: "fst (action sampleEnv ?b) = Inr rb" "status rb \<noteq> 400"
    by auto
  from sample_status(3) obtain rc where rc: "fst (action sampleEnv ?c) = Inr rc" "status rc = 400"
    by auto
  from sample_status(4) obtain rd where rd: "fst (action sampleEnv ?d) = Inr rd" "status rd = 400"
    by auto
  from signin_one_side_effect [of sampleEnv ?a] ra
  have 1: "length (sideEffects (snd (action sampleEnv ?a))) = 1" by auto
  from signin_one_side_effect [of sampleEnv ?b] rb
  have 2: "length (sideEffects (snd (action sampleEnv ?b))) = 1" by auto
  from signin_one_side_effect [of sampleEnv ?c] rc
  have 3: "sideEffects (snd (action sampleEnv ?c)) = []" by blast
  from signin_one_side_effect [of sampleEnv ?d] rd
  have 4: "sideEffects (snd (action sampleEnv ?d)) = []" by blast
  from signin_one_side_effect [of sampleEnv ?e] sample_status(5)
  have 5: "snd (action sampleEnv ?e) = []" by blast
  from 1 2 3 4 5 show ?thesis by simp
qed




section \<open>Root error boundary: the claim\<close>

text \<open>
  Claim C7 as stated (every unhandled route error gets a rendered page) fails: for a
  route error response with status 500 the boundary renders nothing and throws.
\<close>

theorem error_boundary_throws_on_500_response:
  "ErrorBoundary (RouteErrorResponse 500 :: unit routeError) ''/app/train'' =
     (Inl (Error ''Unhandled error: 500''),
      [ConsoleError ''Caught route error'' (RouteErrorResponse 500)])"
  by (simp add: ErrorBoundary_def string_of_nat_500)

text \<open>
  Claim C7, amended. A route error response with status 404 gets the "Page not found"
  page; one with any status other than 404 and 500 gets the generic failure page for
  the current pathname, with that status; an error that is not a route error response
  gets the generic failure page with status code 500; for a route error response with
  status 500 the boundary throws \<open>Unhandled error: 500\<close>.
\<close>

theorem error_boundary_cases:
  "fst (ErrorBoundary err pathname) =
     (case err of
        RouteErrorResponse st \<Rightarrow>
          if st = 404 then
            Inr (ErrorDoc \<lparr> statusCode = 404, title = ''Page not found'',
                   subtitle = [CHR 0x22] @ pathname @ [CHR 0x22] @ '' is not a page. So sorry.'',
                   backLinkTo = ''/'', backLinkText = ''Back to home'' \<rparr>)
          else if st = 500 then Inl (Error ''Unhandled error: 500'')
          else
            Inr (ErrorDoc \<lparr> statusCode = st, title = ''Oh no, something did not go well.'',
                   subtitle = [CHR 0x22] @ pathname @ [CHR 0x22] @ '' is currently not working. So sorry.'',
                   backLinkTo = ''/'', backLinkText = ''Back to home'' \<rparr>)
      | Thrown _ \<Rightarrow>
          Inr (ErrorDoc \<lparr> statusCode = 500, title = ''Oh no, something did not go well.'',
                 subtitle = [CHR 0x22] @ pathname @ [CHR 0x22] @ '' is currently not working. So sorry.'',
                 backLinkTo = ''/'', backLinkText = ''Back to home'' \<rparr>))"
  by (simp add: ErrorBoundary_def string_of_nat_500 split: routeError.splits)

text \<open>
  Claim C7, amended, at one input of each of the four kinds.
\<close>

theorem error_boundary_cases_witness:
  "fst (ErrorBoundary (RouteErrorResponse 404 :: unit routeError) ''/nope'') =
     Inr (ErrorDoc \<lparr> statusCode = 404, title = ''Page not found'',
            subtitle = [CHR 0x22] @ ''/nope'' @ [CHR 0x22] @ '' is not a page. So sorry.'',
            backLinkTo = ''/'', backLinkText = ''Back to home'' \<rparr>) \<and>
   fst (ErrorBoundary (RouteErrorResponse 403 :: unit routeError) ''/app'') =
     Inr (ErrorDoc \<lparr> statusCode = 403, title = ''Oh no, something did not go well.'',
            subtitle = [CHR 0x22] @ ''/app'' @ [CHR 0x22] @ '' is currently not working. So sorry.'',
            backLinkTo = ''/'', backLinkText = ''Back to home'' \<rparr>) \<and>
   fst (ErrorBoundary (Thrown ()) ''/app'') =
     Inr (ErrorDoc \<lparr> statusCode = 500, title = ''Oh no, something did not go well.'',
            subtitle = [CHR 0x22] @ ''/app'' @ [CHR 0x22] @ '' is currently not working. So sorry.'',
            backLinkTo = ''/'', backLinkText = ''Back to home'' \<rparr>) \<and>
   fst (ErrorBoundary (RouteErrorResponse 500 :: unit routeError) ''/app'') =
     Inl (Error ''Unhandled error: 500'')"
  using error_boundary_cases [of "RouteErrorResponse 404 :: unit routeError" "''/nope''"]
    error_boundary_cases [of "RouteErrorResponse 403 :: unit routeError" "''/app''"]
    error_boundary_cases [of "Thrown ()" "''/app''"]
    error_boundary_cases [of "RouteErrorResponse 500 :: unit routeError" "''/app''"]
  by simp

section \<open>Exercise fieldset: the claim\<close>

text \<open>
  Claim C10. The "Add set" button is on the page exactly when the exercise has fewer
  than 10 sets. A press appends a set with rir \<open>0\<close>, rep range \<open>5-8\<close> and empty weight,
  and leaves at most 10 sets. However often the button is tried, a list that starts
  with at most 10 sets never exceeds 10.
\<close>

theorem add_set_below_ten_only:
  "(addSet (ExerciseFieldset props) \<noteq> None \<longleftrightarrow> length (setsList props) < 10) \<and>
   (\<forall>props'. pressAddSet props = Some props' \<longrightarrow>
      setsList props' = setsList props @ [\<lparr> rir = ''0'', repRange = ''5-8'', weight = '''' \<rparr>] \<and>
      length (setsList props') \<le> 10) \<and>
   (length (setsList props) \<le> 10 \<longrightarrow> length (setsList (tryAddSet n props)) \<le> 10) \<and>
   length (setsList (tryAddSet n props)) =
     max (length (setsList props)) (min 10 (length (setsList props) + n))"
proof -
  have 1: "addSet (ExerciseFieldset props) \<noteq> None \<longleftrightarrow> length (setsList props) < 10"
    by (simp add: ExerciseFieldset_def)
  have 2: "\<forall>props'. pressAddSet props = Some props' \<longrightarrow>
      setsList props' = setsList props @ [\<lparr> rir = ''0'', repRange = ''5-8'', weight = '''' \<rparr>] \<and>
      length (setsList props') \<le> 10"
    by (auto simp: pressAddSet_def ExerciseFieldset_def split: if_splits)
  have 3: "length (setsList props) \<le> 10 \<longrightarrow> length (setsList (tryAddSet n props)) \<le> 10"
    by (simp add: length_tryAddSet)
  from 1 2 3 length_tryAddSet show ?thesis by blast
qed

text \<open>
  Claim C10 from an empty list: twelve tries give ten sets, and the button is gone.
\<close>

theorem add_set_below_ten_only_witness:
  "addSet (ExerciseFieldset \<lparr> exercisesName = ''exercises'', index = 0,
       setsName = ''exercises[0].sets'', setsList = [] \<rparr>) \<noteq> None \<and>
   length (setsList (tryAddSet 12 \<lparr> exercisesName = ''exercises'', index = 0,
       setsName = ''exercises[0].sets'', setsList = [] \<rparr>)) = 10 \<and>
   addSet (ExerciseFieldset (tryAddSet 12 \<lparr> exercisesName = ''exercises'', index = 0,
       setsName = ''exercises[0].sets'', setsList = [] \<rparr>)) = None"
proof -
  let ?p = "\<lparr> exercisesName = ''exercises'', index = 0,
             setsName = ''exercises[0].sets'', setsList = [] \<rparr>"
  from add_set_below_ten_only [of ?p 12]
  have 1: "addSet (ExerciseFieldset ?p) \<noteq> None"
    and 2: "length (setsList (tryAddSet 12 ?p)) = 10"
    by simp_all
  from add_set_below_ten_only [of "tryAddSet 12 ?p" 0] 2
  have 3: "addSet (ExerciseFieldset (tryAddSet 12 ?p)) = None"
    by simp
  from 1 2 3 show ?thesis by simp
qed

end
